theory Spec2Isabelle
  imports Main "HOL-Library.Multiset"
begin

section \<open>Persisted rows\<close>

text \<open>
  The backend keeps its data in relational tables reached through Sequelize models.
  Every identifier is a UUID string. A table is the list of its rows in storage order;
  \<open>findByPk\<close> and \<open>findOne\<close> return the first matching row, \<open>create\<close> appends a row,
  \<open>destroy\<close> and \<open>update\<close> act on every row matching the \<open>where\<close> clause.

  The controller requires \<open>validationResult\<close>, \<open>uuidv4\<close>, the models \<open>Setlist\<close>,
  \<open>SetlistSong\<close>, \<open>Song\<close>, \<open>User\<close>, \<open>Band\<close> and \<open>Block\<close>, three services and \<open>io\<close>. It
  also names \<open>BandMember\<close> and \<open>sequelize\<close>, which it never requires or defines: where a
  handler evaluates one of them a \<open>ReferenceError\<close> is raised, and the handler's \<open>catch\<close>
  answers \<open>500 Server Error\<close>. The band-membership rows are still read through the
  \<open>members\<close> association that \<open>getSetlistById\<close> includes.
\<close>

type_synonym uuid = string

record setlist =
  sl_id :: uuid
  sl_name :: string
  sl_description :: "string option"
  sl_band_id :: "uuid option"
  sl_created_by :: uuid
  sl_is_public :: bool
  sl_updated_at :: nat

record setlist_song =
  ss_id :: uuid
  ss_setlist_id :: uuid
  ss_song_id :: uuid
  ss_position :: int
  ss_block_id :: "uuid option"
  ss_notes :: "string option"

record block =
  bl_id :: uuid
  bl_setlist_id :: uuid
  bl_name :: string
  bl_position :: int

record song =
  sg_id :: uuid
  sg_title :: string

record band_member =
  bm_band_id :: uuid
  bm_user_id :: uuid
  bm_role :: string

record store =
  Setlist_rows :: "setlist list"
  SetlistSong_rows :: "setlist_song list"
  Block_rows :: "block list"
  Song_rows :: "song list"
  Band_rows :: "uuid list"
  BandMember_rows :: "band_member list"

section \<open>Requests and responses\<close>

text \<open>
  A response is the HTTP status with the body sent. \<open>res.json(x)\<close> without an explicit
  status is status 200. The song and block rows that Sequelize joins into a returned
  entry are not repeated in the body.
\<close>

datatype body =
    Msg string
  | Errors "string list"
  | Text string
  | SetlistJson setlist
  | SetlistSongsJson "setlist_song list"
  | SetlistSongJson "setlist_song option"

type_synonym response = "nat \<times> body"

text \<open>The body of \<open>PUT /:id\<close>; \<open>None\<close> is a field that is \<open>undefined\<close>.\<close>

record update_body =
  ub_name :: "string option"
  ub_description :: "string option"
  ub_is_public :: "bool option"

text \<open>
  The request of \<open>POST /:id/songs\<close>: the errors found by the route's validators
  (what \<open>validationResult(req)\<close> reads) and the body fields.
\<close>

record add_request =
  ar_errors :: "string list"
  ar_song_id :: uuid
  ar_position :: int
  ar_block_id :: "uuid option"
  ar_notes :: "string option"

text \<open>
  One element of the \<open>songs\<close> array of \<open>PUT /:id/reorder\<close>, as the route documents it and
  the client sends it: an id, a position and an optional block id.
\<close>

record reorder_item =
  ri_id :: uuid
  ri_position :: int
  ri_block_id :: "uuid option"

text \<open>
  The \<open>songs\<close> field of the reorder body: absent (or any other falsy value), a value
  that is not an array, or an array.
\<close>

datatype songs_field = Absent | NotArray | SongsArray "reorder_item list"

section \<open>Queries\<close>

text \<open>
  JavaScript truthiness of an optional string: \<open>null\<close>, \<open>undefined\<close> and the empty
  string are falsy, every other string is truthy. So \<open>x || null\<close> is:
\<close>

fun or_null :: "string option \<Rightarrow> string option" where
  "or_null None = None"
| "or_null (Some s) = (if s = [] then None else Some s)"

definition findByPk_Setlist :: "store \<Rightarrow> uuid \<Rightarrow> setlist option" where
  "findByPk_Setlist st i = find (\<lambda>s. sl_id s = i) (Setlist_rows st)"

definition findByPk_Song :: "store \<Rightarrow> uuid \<Rightarrow> song option" where
  "findByPk_Song st i = find (\<lambda>s. sg_id s = i) (Song_rows st)"

definition findByPk_Block :: "store \<Rightarrow> uuid \<Rightarrow> block option" where
  "findByPk_Block st i = find (\<lambda>b. bl_id b = i) (Block_rows st)"

definition findByPk_SetlistSong :: "store \<Rightarrow> uuid \<Rightarrow> setlist_song option" where
  "findByPk_SetlistSong st i = find (\<lambda>r. ss_id r = i) (SetlistSong_rows st)"

text \<open>
  \<open>SetlistSong.findAll({ where: { setlist_id }, order: [['position', 'ASC']] })\<close>.
  The store leaves the order of rows with equal position open; the model keeps them in
  storage order.
\<close>

definition findAll_SetlistSong :: "store \<Rightarrow> uuid \<Rightarrow> setlist_song list" where
  "findAll_SetlistSong st sid =
     sort_key ss_position (filter (\<lambda>r. ss_setlist_id r = sid) (SetlistSong_rows st))"

text \<open>
  What evaluating an expression gives: a value, or the \<open>ReferenceError\<close> raised by a
  name that is not bound.
\<close>

datatype 'a result = ReferenceError | Returns 'a

text \<open>
  \<open>BandMember.findOne({ where })\<close>. \<open>BandMember\<close> is not bound in the controller, so the
  call raises before any row is read, whatever the \<open>where\<close> clause.
\<close>

definition BandMember_findOne ::
  "(band_member \<Rightarrow> bool) \<Rightarrow> store \<Rightarrow> band_member option result" where
  "BandMember_findOne wh st = ReferenceError"

text \<open>
  \<open>sequelize.transaction(callback)\<close>. \<open>sequelize\<close> is not bound in the controller, so
  the call raises before the callback is run.
\<close>

definition sequelize_transaction :: "(store \<Rightarrow> store) \<Rightarrow> store \<Rightarrow> store result" where
  "sequelize_transaction callback st = ReferenceError"

text \<open>
  \<open>isUserBandMember(userId, bandId)\<close>: \<open>false\<close> for a falsy band id, otherwise
  \<open>!!bandMember\<close> of the row \<open>BandMember.findOne\<close> gives.
\<close>

definition isUserBandMember :: "store \<Rightarrow> uuid \<Rightarrow> uuid option \<Rightarrow> bool result" where
  "isUserBandMember st userId bandId =
     (case bandId of
        None \<Rightarrow> Returns False
      | Some b \<Rightarrow>
          if b = [] then Returns False
          else
            (case BandMember_findOne (\<lambda>m. bm_band_id m = b \<and> bm_user_id m = userId) st of
               ReferenceError \<Rightarrow> ReferenceError
             | Returns bandMember \<Rightarrow> Returns (bandMember \<noteq> None)))"

text \<open>
  The \<open>band\<close> association loaded by \<open>getSetlistById\<close>: \<open>None\<close> is \<open>setlist.band === null\<close>
  (no band id, or no such band), otherwise the ids of the band's members.
\<close>

definition include_band :: "store \<Rightarrow> setlist \<Rightarrow> uuid list option" where
  "include_band st sl =
     (case sl_band_id sl of
        None \<Rightarrow> None
      | Some b \<Rightarrow>
          if b \<in> set (Band_rows st)
          then Some (map bm_user_id (filter (\<lambda>m. bm_band_id m = b) (BandMember_rows st)))
          else None)"

text \<open>
  \<open>setlist.changed('updated_at', true); await setlist.save()\<close>: only the timestamp of
  the loaded setlist is written.
\<close>

definition touch :: "store \<Rightarrow> setlist \<Rightarrow> nat \<Rightarrow> store" where
  "touch st sl now =
     st\<lparr>Setlist_rows :=
          map (\<lambda>s. if sl_id s = sl_id sl then s\<lparr>sl_updated_at := now\<rparr> else s)
            (Setlist_rows st)\<rparr>"

section \<open>Handlers of the setlist controller\<close>

text \<open>
  Each handler takes the store, the authenticated user id (\<open>req.user.id\<close>), the path
  parameters and the body, and returns the response; a handler that writes also returns
  the store afterwards, and takes the time \<open>now\<close> it stamps on the setlist. An exception
  inside a handler's \<open>try\<close> is the response \<open>500 Server Error\<close>, with nothing written.
  The exceptions are the two unbound names, the read of a property of \<open>null\<close> in
  \<open>getSetlistById\<close>, and a setlist name that the \<open>Setlist\<close> model or its column refuses
  in \<open>updateSetlist\<close>. The socket events a handler emits change neither the store nor
  the response and are left out.
\<close>

text \<open>
  \<open>getSetlistById\<close>. The access test is \<open>a || b || c\<close>, evaluated from the left: the
  members of the band are read only when the actor is not the creator and the setlist
  is not public. The body is the setlist row, without the rows joined into it.
\<close>

definition getSetlistById :: "store \<Rightarrow> uuid \<Rightarrow> uuid \<Rightarrow> response" where
  "getSetlistById st user sid =
     (case findByPk_Setlist st sid of
        None \<Rightarrow> (404, Msg ''Setlist not found'')
      | Some sl \<Rightarrow>
          if sl_created_by sl = user \<or> sl_is_public sl then (200, SetlistJson sl)
          else
            (case include_band st sl of
               None \<Rightarrow> (500, Text ''Server Error'')
             | Some members \<Rightarrow>
                 if list_ex (\<lambda>m. m = user) members then (200, SetlistJson sl)
                 else (403, Msg ''Access denied'')))"

text \<open>
  The permission test shared by update and delete: the creator passes; another actor
  is refused when the setlist has no band, and otherwise
  \<open>BandMember.findOne({ where: { band_id, user_id, role: 'admin' } })\<close> decides.
\<close>

definition may_change_setlist :: "store \<Rightarrow> uuid \<Rightarrow> setlist \<Rightarrow> bool result" where
  "may_change_setlist st user sl =
     (if sl_created_by sl \<noteq> user then
        (case sl_band_id sl of
           None \<Rightarrow> Returns False
         | Some b \<Rightarrow>
             if b = [] then Returns False
             else
               (case BandMember_findOne
                       (\<lambda>m. bm_band_id m = b \<and> bm_user_id m = user \<and> bm_role m = ''admin'') st of
                  ReferenceError \<Rightarrow> ReferenceError
                | Returns bandMember \<Rightarrow> Returns (bandMember \<noteq> None)))
      else Returns True)"

text \<open>
  The \<open>Setlist\<close> model declares \<open>name\<close> as \<open>STRING(255)\<close> with \<open>validate: { notEmpty: true }\<close>:
  a name of white space only fails validation and a name longer than the column is
  refused by the store. (White space is the ASCII white space here.)
\<close>

definition blank :: "string \<Rightarrow> bool" where
  "blank n =
     list_all (\<lambda>c. c \<in> set [CHR '' '', CHR 0x09, CHR 0x0A, CHR 0x0B, CHR 0x0C, CHR 0x0D]) n"

definition name_accepted :: "string \<Rightarrow> bool" where
  "name_accepted n = (\<not> blank n \<and> length n \<le> 255)"

text \<open>
  \<open>updateSetlist\<close>. A name is taken when it is truthy, a description and a visibility
  when they are not \<open>undefined\<close>. \<open>setlist.save()\<close> writes nothing when no field changed;
  otherwise it validates the changed fields, raises when a changed name is not
  accepted, and else writes them with a new timestamp.
\<close>

definition updateSetlist :: "store \<Rightarrow> nat \<Rightarrow> uuid \<Rightarrow> uuid \<Rightarrow> update_body \<Rightarrow> response \<times> store" where
  "updateSetlist st now user sid b =
     (case findByPk_Setlist st sid of
        None \<Rightarrow> ((404, Msg ''Setlist not found''), st)
      | Some sl \<Rightarrow>
          (case may_change_setlist st user sl of
             ReferenceError \<Rightarrow> ((500, Text ''Server Error''), st)
           | Returns allowed \<Rightarrow>
               if \<not> allowed
               then ((403, Msg ''You do not have permission to update this setlist''), st)
               else
                 let sl1 = (case ub_name b of
                              Some n \<Rightarrow> if n = [] then sl else sl\<lparr>sl_name := n\<rparr>
                            | None \<Rightarrow> sl);
                     sl2 = (case ub_description b of
                              Some d \<Rightarrow> sl1\<lparr>sl_description := Some d\<rparr>
                            | None \<Rightarrow> sl1);
                     sl3 = (case ub_is_public b of
                              Some p \<Rightarrow> sl2\<lparr>sl_is_public := p\<rparr>
                            | None \<Rightarrow> sl2)
                 in if sl3 = sl then ((200, SetlistJson sl), st)
                    else if sl_name sl3 \<noteq> sl_name sl \<and> \<not> name_accepted (sl_name sl3)
                    then ((500, Text ''Server Error''), st)
                    else
                      ((200, SetlistJson (sl3\<lparr>sl_updated_at := now\<rparr>)),
                       st\<lparr>Setlist_rows :=
                            map (\<lambda>s. if sl_id s = sl_id sl then sl3\<lparr>sl_updated_at := now\<rparr> else s)
                              (Setlist_rows st)\<rparr>)))"

text \<open>The three deletions of \<open>deleteSetlist\<close>, in the order the handler performs them.\<close>

definition destroy_SetlistSongs :: "uuid \<Rightarrow> store \<Rightarrow> store" where
  "destroy_SetlistSongs setlistId st =
     st\<lparr>SetlistSong_rows := filter (\<lambda>r. ss_setlist_id r \<noteq> setlistId) (SetlistSong_rows st)\<rparr>"

definition destroy_Blocks :: "uuid \<Rightarrow> store \<Rightarrow> store" where
  "destroy_Blocks setlistId st =
     st\<lparr>Block_rows := filter (\<lambda>b. bl_setlist_id b \<noteq> setlistId) (Block_rows st)\<rparr>"

definition destroy_Setlist :: "setlist \<Rightarrow> store \<Rightarrow> store" where
  "destroy_Setlist sl st =
     st\<lparr>Setlist_rows := filter (\<lambda>s. sl_id s \<noteq> sl_id sl) (Setlist_rows st)\<rparr>"

definition deleteSetlist :: "store \<Rightarrow> uuid \<Rightarrow> uuid \<Rightarrow> response \<times> store" where
  "deleteSetlist st user sid =
     (case findByPk_Setlist st sid of
        None \<Rightarrow> ((404, Msg ''Setlist not found''), st)
      | Some sl \<Rightarrow>
          (case may_change_setlist st user sl of
             ReferenceError \<Rightarrow> ((500, Text ''Server Error''), st)
           | Returns allowed \<Rightarrow>
               if \<not> allowed
               then ((403, Msg ''You do not have permission to delete this setlist''), st)
               else
                 let setlistId = sl_id sl;
                     st1 = destroy_SetlistSongs setlistId st;
                     st2 = destroy_Blocks setlistId st1;
                     st3 = destroy_Setlist sl st2
                 in ((200, Msg ''Setlist deleted''), st3)))"

text \<open>
  \<open>getSetlistSongs\<close>. The access test is \<open>a || b || await isUserBandMember(...)\<close>: the
  membership is asked only of an actor who is not the creator of a setlist that is not
  public.
\<close>

definition getSetlistSongs :: "store \<Rightarrow> uuid \<Rightarrow> uuid \<Rightarrow> response" where
  "getSetlistSongs st user sid =
     (case findByPk_Setlist st sid of
        None \<Rightarrow> (404, Msg ''Setlist not found'')
      | Some sl \<Rightarrow>
          (case (if sl_created_by sl = user \<or> sl_is_public sl then Returns True
                 else isUserBandMember st user (sl_band_id sl)) of
             ReferenceError \<Rightarrow> (500, Text ''Server Error'')
           | Returns hasAccess \<Rightarrow>
               if \<not> hasAccess then (403, Msg ''Access denied'')
               else (200, SetlistSongsJson (findAll_SetlistSong st sid))))"

text \<open>
  The permission test shared by add, remove and reorder,
  \<open>created_by !== user && !await isUserBandMember(...)\<close>: the membership is asked only
  of an actor who is not the creator.
\<close>

definition may_edit_entries :: "store \<Rightarrow> uuid \<Rightarrow> setlist \<Rightarrow> bool result" where
  "may_edit_entries st user sl =
     (if sl_created_by sl \<noteq> user then isUserBandMember st user (sl_band_id sl)
      else Returns True)"

text \<open>
  The block test of \<open>addSongToSetlist\<close>: a truthy \<open>block_id\<close> whose block is missing
  or belongs to another setlist.
\<close>

definition invalid_block :: "store \<Rightarrow> uuid \<Rightarrow> uuid option \<Rightarrow> bool" where
  "invalid_block st sid block_id =
     (case block_id of
        None \<Rightarrow> False
      | Some b \<Rightarrow>
          if b = [] then False
          else (case findByPk_Block st b of
                  None \<Rightarrow> True
                | Some blk \<Rightarrow> bl_setlist_id blk \<noteq> sid))"

text \<open>\<open>newId\<close> is the value \<open>uuidv4()\<close> returns for the new entry.\<close>

definition addSongToSetlist ::
  "store \<Rightarrow> nat \<Rightarrow> uuid \<Rightarrow> uuid \<Rightarrow> uuid \<Rightarrow> add_request \<Rightarrow> response \<times> store" where
  "addSongToSetlist st now newId user sid req =
     (if ar_errors req \<noteq> [] then ((400, Errors (ar_errors req)), st)
      else
        (case findByPk_Setlist st sid of
           None \<Rightarrow> ((404, Msg ''Setlist not found''), st)
         | Some sl \<Rightarrow>
             (case may_edit_entries st user sl of
                ReferenceError \<Rightarrow> ((500, Text ''Server Error''), st)
              | Returns allowed \<Rightarrow>
                  if \<not> allowed
                  then ((403, Msg ''You do not have permission to update this setlist''), st)
                  else
                    (case findByPk_Song st (ar_song_id req) of
                       None \<Rightarrow> ((404, Msg ''Song not found''), st)
                     | Some _ \<Rightarrow>
                         if invalid_block st sid (ar_block_id req)
                         then ((400, Msg ''Invalid block ID''), st)
                         else
                           let row = \<lparr>ss_id = newId, ss_setlist_id = sid,
                                      ss_song_id = ar_song_id req,
                                      ss_position = ar_position req,
                                      ss_block_id = or_null (ar_block_id req),
                                      ss_notes = or_null (ar_notes req)\<rparr>;
                               st1 = st\<lparr>SetlistSong_rows := SetlistSong_rows st @ [row]\<rparr>;
                               st2 = touch st1 sl now
                           in ((201, SetlistSongJson (findByPk_SetlistSong st2 newId)), st2)))))"

definition removeSongFromSetlist ::
  "store \<Rightarrow> nat \<Rightarrow> uuid \<Rightarrow> uuid \<Rightarrow> uuid \<Rightarrow> response \<times> store" where
  "removeSongFromSetlist st now user sid songId =
     (case findByPk_Setlist st sid of
        None \<Rightarrow> ((404, Msg ''Setlist not found''), st)
      | Some sl \<Rightarrow>
          (case may_edit_entries st user sl of
             ReferenceError \<Rightarrow> ((500, Text ''Server Error''), st)
           | Returns allowed \<Rightarrow>
               if \<not> allowed
               then ((403, Msg ''You do not have permission to update this setlist''), st)
               else
                 (case find (\<lambda>r. ss_setlist_id r = sid \<and> ss_song_id r = songId)
                         (SetlistSong_rows st) of
                    None \<Rightarrow> ((404, Msg ''Song not found in setlist''), st)
                  | Some setlistSong \<Rightarrow>
                      let st1 = st\<lparr>SetlistSong_rows :=
                                    filter (\<lambda>r. ss_id r \<noteq> ss_id setlistSong)
                                      (SetlistSong_rows st)\<rparr>;
                          st2 = touch st1 sl now
                      in ((200, Msg ''Song removed from setlist''), st2))))"

text \<open>
  \<open>SetlistSong.update({ position, block_id: song.block_id || null }, { where: { id: song.id } })\<close>:
  every row with that id is rewritten; no row matching is not an error.
\<close>

definition update_SetlistSong :: "reorder_item \<Rightarrow> setlist_song list \<Rightarrow> setlist_song list" where
  "update_SetlistSong u rows =
     map (\<lambda>r. if ss_id r = ri_id u
              then r\<lparr>ss_position := ri_position u, ss_block_id := or_null (ri_block_id u)\<rparr>
              else r) rows"

text \<open>The \<open>for (const song of songs)\<close> loop of the transaction's callback.\<close>

fun update_all :: "reorder_item list \<Rightarrow> setlist_song list \<Rightarrow> setlist_song list" where
  "update_all [] rows = rows"
| "update_all (u # us) rows = update_all us (update_SetlistSong u rows)"

text \<open>
  \<open>reorderSetlistSongs\<close>. After the three tests the handler hands the callback (the
  loop, then the timestamp of the setlist) to \<open>sequelize.transaction\<close>; the listing is
  read and answered only when that returns.
\<close>

definition reorderSetlistSongs ::
  "store \<Rightarrow> nat \<Rightarrow> uuid \<Rightarrow> uuid \<Rightarrow> songs_field \<Rightarrow> response \<times> store" where
  "reorderSetlistSongs st now user sid songs =
     (case songs of
        Absent \<Rightarrow> ((400, Msg ''Songs array is required''), st)
      | NotArray \<Rightarrow> ((400, Msg ''Songs array is required''), st)
      | SongsArray us \<Rightarrow>
          if us = [] then ((400, Msg ''Songs array is required''), st)
          else
            (case findByPk_Setlist st sid of
               None \<Rightarrow> ((404, Msg ''Setlist not found''), st)
             | Some sl \<Rightarrow>
                 (case may_edit_entries st user sl of
                    ReferenceError \<Rightarrow> ((500, Text ''Server Error''), st)
                  | Returns allowed \<Rightarrow>
                      if \<not> allowed
                      then ((403, Msg ''You do not have permission to update this setlist''), st)
                      else
                        (case sequelize_transaction
                                (\<lambda>s. touch (s\<lparr>SetlistSong_rows :=
                                                 update_all us (SetlistSong_rows s)\<rparr>) sl now)
                                st of
                           ReferenceError \<Rightarrow> ((500, Text ''Server Error''), st)
                         | Returns st2 \<Rightarrow>
                             ((200, SetlistSongsJson (findAll_SetlistSong st2 sid)), st2)))))"

section \<open>Sequences of entry calls\<close>

text \<open>
  A call of one of the three entry-level handlers with its arguments, and the store after
  a sequence of such calls (whatever each one answers).
\<close>

datatype call =
    AddEntry nat uuid uuid uuid add_request
  | RemoveEntry nat uuid uuid uuid
  | ReorderEntries nat uuid uuid songs_field

fun apply_call :: "store \<Rightarrow> call \<Rightarrow> store" where
  "apply_call st (AddEntry now newId user sid req) =
     snd (addSongToSetlist st now newId user sid req)"
| "apply_call st (RemoveEntry now user sid songId) =
     snd (removeSongFromSetlist st now user sid songId)"
| "apply_call st (ReorderEntries now user sid songs) =
     snd (reorderSetlistSongs st now user sid songs)"

definition apply_calls :: "store \<Rightarrow> call list \<Rightarrow> store" where
  "apply_calls st cs = foldl apply_call st cs"

section \<open>The orderings and outcomes the specification words describe\<close>

text \<open>
  The position of the block an entry is assigned to (\<open>None\<close> for an entry without a
  block, or whose block row is gone).
\<close>

definition block_position :: "store \<Rightarrow> setlist_song \<Rightarrow> int option" where
  "block_position st r =
     (case ss_block_id r of
        None \<Rightarrow> None
      | Some b \<Rightarrow> map_option bl_position (findByPk_Block st b))"

fun block_before :: "int option \<Rightarrow> int option \<Rightarrow> bool" where
  "block_before None (Some _) = True"
| "block_before (Some x) (Some y) = (x < y)"
| "block_before _ None = False"

text \<open>
  The specification's listing order: grouped by ascending block position and, within a
  block, by ascending entry position (entries without a block first).
\<close>

definition block_then_entry_order :: "store \<Rightarrow> setlist_song list \<Rightarrow> bool" where
  "block_then_entry_order st xs =
     sorted_wrt (\<lambda>a b. block_before (block_position st a) (block_position st b)
                       \<or> (block_position st a = block_position st b
                           \<and> ss_position a \<le> ss_position b)) xs"

text \<open>
  An update list that names an entry id which is not the id of an entry of the setlist:
  no entry has it, or only entries of other setlists have it.
\<close>

definition names_foreign_entry :: "store \<Rightarrow> uuid \<Rightarrow> reorder_item list \<Rightarrow> bool" where
  "names_foreign_entry st sid us =
     list_ex (\<lambda>u. \<not> list_ex (\<lambda>r. ss_id r = ri_id u \<and> ss_setlist_id r = sid)
                        (SetlistSong_rows st)) us"

text \<open>
  The last element of an update list that names a given entry id, and an entry
  rewritten by it.
\<close>

definition last_update :: "reorder_item list \<Rightarrow> uuid \<Rightarrow> reorder_item option" where
  "last_update us i = find (\<lambda>u. ri_id u = i) (rev us)"

definition placed :: "reorder_item list \<Rightarrow> setlist_song \<Rightarrow> setlist_song" where
  "placed us r =
     (case last_update us (ss_id r) of
        None \<Rightarrow> r
      | Some u \<Rightarrow> r\<lparr>ss_position := ri_position u, ss_block_id := or_null (ri_block_id u)\<rparr>)"

section \<open>Client store\<close>

text \<open>
  The state of the \<open>setlists\<close> slice of the client; its entries and setlists are the
  rows the server answers with.
\<close>

record setlists_state =
  setlists :: "setlist list"
  currentSetlist :: "setlist option"
  setlistSongs :: "setlist_song list"
  isLoading :: bool
  error :: "string option"

record remove_payload =
  rp_setlist_id :: uuid
  rp_song_id :: uuid

text \<open>The reducer case \<open>removeSongFromSetlist.fulfilled\<close>.\<close>

definition removeSongFromSetlist_fulfilled ::
  "setlists_state \<Rightarrow> remove_payload \<Rightarrow> setlists_state" where
  "removeSongFromSetlist_fulfilled state payload =
     state\<lparr>isLoading := False,
           setlistSongs :=
             filter (\<lambda>setlistSong. ss_song_id setlistSong \<noteq> rp_song_id payload)
               (setlistSongs state)\<rparr>"

section \<open>A sample store\<close>

text \<open>
  Setlist \<open>S1\<close> is private, has no band and was created by \<open>U1\<close>; setlist \<open>S2\<close> is
  private, created by \<open>U1\<close> and owned by band \<open>B1\<close>, of which \<open>U2\<close> is a plain member
  and \<open>U3\<close> an admin. \<open>U9\<close> is a stranger to both.
\<close>

definition S1 :: setlist where
  "S1 = \<lparr>sl_id = ''S1'', sl_name = ''Club night'', sl_description = None,
         sl_band_id = None, sl_created_by = ''U1'', sl_is_public = False,
         sl_updated_at = 0\<rparr>"

definition S2 :: setlist where
  "S2 = \<lparr>sl_id = ''S2'', sl_name = ''Festival'', sl_description = None,
         sl_band_id = Some ''B1'', sl_created_by = ''U1'', sl_is_public = False,
         sl_updated_at = 0\<rparr>"

definition entry :: "uuid \<Rightarrow> uuid \<Rightarrow> uuid \<Rightarrow> int \<Rightarrow> uuid option \<Rightarrow> setlist_song" where
  "entry i sid sg p b =
     \<lparr>ss_id = i, ss_setlist_id = sid, ss_song_id = sg, ss_position = p,
      ss_block_id = b, ss_notes = None\<rparr>"

definition sample :: store where
  "sample =
     \<lparr>Setlist_rows = [S1, S2],
      SetlistSong_rows =
        [entry ''e1'' ''S1'' ''A'' 1 None, entry ''e2'' ''S1'' ''B'' 2 None,
         entry ''e3'' ''S2'' ''A'' 1 (Some ''K3'')],
      Block_rows =
        [\<lparr>bl_id = ''K1'', bl_setlist_id = ''S1'', bl_name = ''Set 1'', bl_position = 1\<rparr>,
         \<lparr>bl_id = ''K2'', bl_setlist_id = ''S1'', bl_name = ''Encore'', bl_position = 2\<rparr>,
         \<lparr>bl_id = ''K3'', bl_setlist_id = ''S2'', bl_name = ''Set 1'', bl_position = 1\<rparr>],
      Song_rows = [\<lparr>sg_id = ''A'', sg_title = ''Alpha''\<rparr>, \<lparr>sg_id = ''B'', sg_title = ''Beta''\<rparr>],
      Band_rows = [''B1''],
      BandMember_rows =
        [\<lparr>bm_band_id = ''B1'', bm_user_id = ''U2'', bm_role = ''member''\<rparr>,
         \<lparr>bm_band_id = ''B1'', bm_user_id = ''U3'', bm_role = ''admin''\<rparr>]\<rparr>"

definition add_req :: "uuid \<Rightarrow> int \<Rightarrow> uuid option \<Rightarrow> add_request" where
  "add_req sg p b =
     \<lparr>ar_errors = [], ar_song_id = sg, ar_position = p, ar_block_id = b, ar_notes = None\<rparr>"

definition move :: "uuid \<Rightarrow> int \<Rightarrow> reorder_item" where
  "move i p = \<lparr>ri_id = i, ri_position = p, ri_block_id = None\<rparr>"

definition two_adds :: "call list" where
  "two_adds = [AddEntry 1 ''n1'' ''U1'' ''S1'' (add_req ''A'' 3 (Some ''K2'')),
               AddEntry 2 ''n2'' ''U1'' ''S1'' (add_req ''B'' 4 (Some ''K1''))]"

definition swap_two :: "reorder_item list" where
  "swap_two = [move ''e1'' 2, move ''e2'' 1]"

definition new_name :: update_body where
  "new_name = \<lparr>ub_name = Some ''Late show'', ub_description = None, ub_is_public = None\<rparr>"

text \<open>The sample store with song \<open>A\<close> played a second time in \<open>S1\<close>, and a client showing \<open>S1\<close>.\<close>

definition reprise :: store where
  "reprise = sample\<lparr>SetlistSong_rows :=
     [entry ''e1'' ''S1'' ''A'' 1 None, entry ''e2'' ''S1'' ''B'' 2 None,
      entry ''e4'' ''S1'' ''A'' 3 None]\<rparr>"

definition client :: setlists_state where
  "client = \<lparr>setlists = [S1], currentSetlist = Some S1,
             setlistSongs = [entry ''e1'' ''S1'' ''A'' 1 None, entry ''e2'' ''S1'' ''B'' 2 None,
                             entry ''e4'' ''S1'' ''A'' 3 None],
             isLoading = True, error = None\<rparr>"

section \<open>Auxiliary facts\<close>

lemmas sample_defs = sample_def S1_def S2_def entry_def move_def add_req_def

lemmas query_defs = findByPk_Setlist_def findByPk_Song_def findByPk_Block_def
  findByPk_SetlistSong_def findAll_SetlistSong_def isUserBandMember_def BandMember_findOne_def
  sequelize_transaction_def include_band_def touch_def may_edit_entries_def
  may_change_setlist_def invalid_block_def

lemmas handler_defs = getSetlistById_def updateSetlist_def deleteSetlist_def getSetlistSongs_def
  addSongToSetlist_def removeSongFromSetlist_def reorderSetlistSongs_def update_SetlistSong_def
  destroy_SetlistSongs_def destroy_Blocks_def destroy_Setlist_def name_accepted_def blank_def

subsection \<open>Lookups and permissions\<close>

lemma findByPk_Setlist_id: "findByPk_Setlist st sid = Some sl \<Longrightarrow> sl_id sl = sid"
  by (auto simp: findByPk_Setlist_def find_Some_iff)

lemma missing_song:
  "\<forall>s \<in> set (Song_rows st). sg_id s \<noteq> i \<Longrightarrow> findByPk_Song st i = None"
  by (simp add: findByPk_Song_def find_None_iff)

lemma existing_song:
  "\<exists>s \<in> set (Song_rows st). sg_id s = i \<Longrightarrow> \<exists>s. findByPk_Song st i = Some s"
  by (cases "findByPk_Song st i") (auto simp: findByPk_Song_def find_None_iff)

lemma foreign_block_invalid:
  assumes "b \<noteq> []" and "\<forall>k \<in> set (Block_rows st). bl_id k = b \<longrightarrow> bl_setlist_id k \<noteq> sid"
  shows "invalid_block st sid (Some b)"
proof (cases "findByPk_Block st b")
  case None
  with assms(1) show ?thesis by (simp add: invalid_block_def)
next
  case (Some blk)
  then have "blk \<in> set (Block_rows st)" "bl_id blk = b"
    by (auto simp: findByPk_Block_def find_Some_iff)
  with assms(2) have "bl_setlist_id blk \<noteq> sid" by blast
  with Some assms(1) show ?thesis by (simp add: invalid_block_def)
qed

lemma creator_may_edit: "sl_created_by sl = user \<Longrightarrow> may_edit_entries st user sl = Returns True"
  by (simp add: may_edit_entries_def)

lemma creator_may_change: "sl_created_by sl = user \<Longrightarrow> may_change_setlist st user sl = Returns True"
  by (simp add: may_change_setlist_def)

lemma banded_membership_raises:
  "b \<noteq> [] \<Longrightarrow> isUserBandMember st user (Some b) = ReferenceError"
  by (simp add: isUserBandMember_def BandMember_findOne_def)

lemma unbanded_membership: "isUserBandMember st user None = Returns False"
  by (simp add: isUserBandMember_def)

lemma may_change_Returns_True:
  "may_change_setlist st user sl = Returns True \<Longrightarrow> sl_created_by sl = user"
  by (auto simp: may_change_setlist_def BandMember_findOne_def split: if_splits option.splits)

lemma may_edit_Returns_True:
  "may_edit_entries st user sl = Returns True \<Longrightarrow> sl_created_by sl = user"
  by (auto simp: may_edit_entries_def isUserBandMember_def BandMember_findOne_def
        split: if_splits option.splits)

subsection \<open>A reorder writes nothing\<close>

text \<open>
  No path of \<open>reorderSetlistSongs\<close> returns a changed store: the three tests answer
  400, 404 and 403 before any write, an actor other than the creator of a setlist with
  a band raises at \<open>BandMember\<close>, and every call that gets past the tests raises at
  \<open>sequelize\<close>.
\<close>

lemma reorderSetlistSongs_writes_nothing:
  "snd (reorderSetlistSongs st now user sid songs) = st"
  by (simp add: reorderSetlistSongs_def sequelize_transaction_def
        split: songs_field.splits option.splits result.splits)

lemma reorderSetlistSongs_status:
  "fst (fst (reorderSetlistSongs st now user sid songs)) \<in> {400, 403, 404, 500}"
  by (simp add: reorderSetlistSongs_def sequelize_transaction_def
        split: songs_field.splits option.splits result.splits)

lemma reorderSetlistSongs_any_time:
  "fst (reorderSetlistSongs st n2 user sid songs) = fst (reorderSetlistSongs st n1 user sid songs)"
  by (simp add: reorderSetlistSongs_def sequelize_transaction_def
        split: songs_field.splits option.splits result.splits)

lemma reorderSetlistSongs_past_tests:
  assumes "us \<noteq> []" and "findByPk_Setlist st sid = Some sl" and "sl_created_by sl = user"
  shows "reorderSetlistSongs st now user sid (SongsArray us) = ((500, Text ''Server Error''), st)"
  using assms
  by (simp add: reorderSetlistSongs_def sequelize_transaction_def creator_may_edit)

subsection \<open>The callback of the transaction, as written\<close>

text \<open>
  The controller never runs the loop (see \<open>sequelize_transaction\<close>). As it is written,
  the loop leaves an entry with the position and block of the last update naming its
  id, so running it twice gives what running it once gives; and an update whose id no
  row has rewrites nothing and raises nothing.
\<close>

lemma find_app:
  "find P (xs @ ys) = (case find P xs of None \<Rightarrow> find P ys | Some x \<Rightarrow> Some x)"
  by (induction xs) simp_all

lemma last_update_Cons:
  "last_update (u # us) i =
     (case last_update us i of
        None \<Rightarrow> (if ri_id u = i then Some u else None)
      | Some v \<Rightarrow> Some v)"
  by (simp add: last_update_def find_app split: option.splits)

lemma placed_Cons:
  "placed (u # us) r =
     placed us (if ss_id r = ri_id u
                then r\<lparr>ss_position := ri_position u, ss_block_id := or_null (ri_block_id u)\<rparr>
                else r)"
  by (auto simp: placed_def last_update_Cons split: option.splits)

lemma update_all_placed: "update_all us rows = map (placed us) rows"
proof (induction us arbitrary: rows)
  case Nil
  show ?case by (simp add: placed_def last_update_def)
next
  case (Cons u us)
  show ?case
    by (simp add: Cons.IH update_SetlistSong_def placed_Cons)
qed

lemma placed_keeps_id [simp]: "ss_id (placed us r) = ss_id r"
  by (simp add: placed_def split: option.splits)

lemma placed_idem [simp]: "placed us (placed us r) = placed us r"
  by (simp add: placed_def split: option.splits)

lemma update_all_idem: "update_all us (update_all us rows) = update_all us rows"
  by (simp add: update_all_placed)

lemma update_SetlistSong_no_such_id:
  "\<forall>r \<in> set rows. ss_id r \<noteq> ri_id u \<Longrightarrow> update_SetlistSong u rows = rows"
  by (simp add: update_SetlistSong_def map_idI)

subsection \<open>Removing one entry\<close>

lemma removeSongFromSetlist_success:
  assumes "removeSongFromSetlist st now user sid songId = ((200, b), st')"
  shows "\<exists>e \<in> set (SetlistSong_rows st).
           ss_setlist_id e = sid \<and> ss_song_id e = songId
           \<and> SetlistSong_rows st' = filter (\<lambda>r. ss_id r \<noteq> ss_id e) (SetlistSong_rows st)"
proof -
  from assms obtain sl e where "findByPk_Setlist st sid = Some sl"
    and e: "find (\<lambda>r. ss_setlist_id r = sid \<and> ss_song_id r = songId) (SetlistSong_rows st) = Some e"
    and st': "st' = touch (st\<lparr>SetlistSong_rows :=
                  filter (\<lambda>r. ss_id r \<noteq> ss_id e) (SetlistSong_rows st)\<rparr>) sl now"
    by (auto simp: removeSongFromSetlist_def Let_def split: option.splits if_splits result.splits)
  from e have "e \<in> set (SetlistSong_rows st)" "ss_setlist_id e = sid" "ss_song_id e = songId"
    by (auto simp: find_Some_iff)
  with st' show ?thesis by (auto simp: touch_def)
qed

lemma length_filter_distinct_id:
  "distinct (map ss_id rows) \<Longrightarrow> e \<in> set rows
     \<Longrightarrow> Suc (length (filter (\<lambda>r. ss_id r \<noteq> ss_id e) rows)) = length rows"
proof (induction rows)
  case Nil
  then show ?case by simp
next
  case (Cons r rows)
  show ?case
  proof (cases "r = e")
    case True
    with Cons.prems have "ss_id e \<notin> ss_id ` set rows" by simp
    then have "\<forall>x \<in> set rows. ss_id x \<noteq> ss_id e" by (metis imageI)
    then have "filter (\<lambda>r. ss_id r \<noteq> ss_id e) rows = rows" by (simp add: filter_id_conv)
    with True show ?thesis by simp
  next
    case False
    with Cons.prems have "e \<in> set rows" "ss_id r \<noteq> ss_id e" by auto
    with Cons show ?thesis by simp
  qed
qed

subsection \<open>The sample store after two additions\<close>

lemma sample_two_adds:
  "apply_calls sample two_adds =
     sample\<lparr>Setlist_rows := [S1\<lparr>sl_updated_at := 2\<rparr>, S2],
            SetlistSong_rows := SetlistSong_rows sample @
              [entry ''n1'' ''S1'' ''A'' 3 (Some ''K2''), entry ''n2'' ''S1'' ''B'' 4 (Some ''K1'')]\<rparr>"
  by (simp add: apply_calls_def two_adds_def addSongToSetlist_def sample_defs query_defs Let_def)

lemma listing_two_adds:
  "getSetlistSongs (apply_calls sample two_adds) ''U1'' ''S1'' =
     (200, SetlistSongsJson
        [entry ''e1'' ''S1'' ''A'' 1 None, entry ''e2'' ''S1'' ''B'' 2 None,
         entry ''n1'' ''S1'' ''A'' 3 (Some ''K2''), entry ''n2'' ''S1'' ''B'' 4 (Some ''K1'')])"
  unfolding sample_two_adds by (simp add: getSetlistSongs_def sample_defs query_defs)

subsection \<open>Actors other than the creator\<close>

text \<open>
  On a setlist without a band, an actor who is not the creator is answered 403 by
  update, delete, remove, by add and reorder once the request has passed their input
  tests, and by list-songs when the setlist is private.
\<close>

lemma other_actor_unbanded:
  assumes "findByPk_Setlist st sid = Some sl" and "sl_created_by sl \<noteq> user"
    and "sl_band_id sl = None"
  shows "\<not> sl_is_public sl \<Longrightarrow> getSetlistSongs st user sid = (403, Msg ''Access denied'')"
    and "updateSetlist st now user sid body
           = ((403, Msg ''You do not have permission to update this setlist''), st)"
    and "deleteSetlist st user sid
           = ((403, Msg ''You do not have permission to delete this setlist''), st)"
    and "ar_errors req = [] \<Longrightarrow> addSongToSetlist st now newId user sid req
           = ((403, Msg ''You do not have permission to update this setlist''), st)"
    and "removeSongFromSetlist st now user sid songId
           = ((403, Msg ''You do not have permission to update this setlist''), st)"
    and "us \<noteq> [] \<Longrightarrow> reorderSetlistSongs st now user sid (SongsArray us)
           = ((403, Msg ''You do not have permission to update this setlist''), st)"
  using assms
  by (simp_all add: getSetlistSongs_def updateSetlist_def deleteSetlist_def addSongToSetlist_def
        removeSongFromSetlist_def reorderSetlistSongs_def may_edit_entries_def
        may_change_setlist_def isUserBandMember_def)

text \<open>
  On a setlist with a band, every such actor, member or not and whatever the role,
  raises at \<open>BandMember\<close>: the same handlers answer 500 and write nothing.
\<close>

lemma other_actor_banded:
  assumes "findByPk_Setlist st sid = Some sl" and "sl_created_by sl \<noteq> user"
    and "sl_band_id sl = Some b" and "b \<noteq> []"
  shows "\<not> sl_is_public sl \<Longrightarrow> getSetlistSongs st user sid = (500, Text ''Server Error'')"
    and "updateSetlist st now user sid body = ((500, Text ''Server Error''), st)"
    and "deleteSetlist st user sid = ((500, Text ''Server Error''), st)"
    and "ar_errors req = [] \<Longrightarrow> addSongToSetlist st now newId user sid req
           = ((500, Text ''Server Error''), st)"
    and "removeSongFromSetlist st now user sid songId = ((500, Text ''Server Error''), st)"
    and "us \<noteq> [] \<Longrightarrow> reorderSetlistSongs st now user sid (SongsArray us)
           = ((500, Text ''Server Error''), st)"
  using assms
  by (simp_all add: getSetlistSongs_def updateSetlist_def deleteSetlist_def addSongToSetlist_def
        removeSongFromSetlist_def reorderSetlistSongs_def may_edit_entries_def
        may_change_setlist_def isUserBandMember_def BandMember_findOne_def)

text \<open>
  \<open>getSetlistById\<close> reads the members through the included band: it answers 403 to an
  actor who is none of them, and 500 when there is no band to read them from.
\<close>

lemma getSetlistById_not_a_member:
  assumes "findByPk_Setlist st sid = Some sl" and "sl_created_by sl \<noteq> user"
    and "\<not> sl_is_public sl" and "include_band st sl = Some members" and "user \<notin> set members"
  shows "getSetlistById st user sid = (403, Msg ''Access denied'')"
  using assms by (simp add: getSetlistById_def list_ex_iff)

lemma getSetlistById_null_band:
  assumes "findByPk_Setlist st sid = Some sl" and "sl_created_by sl \<noteq> user"
    and "\<not> sl_is_public sl" and "include_band st sl = None"
  shows "getSetlistById st user sid = (500, Text ''Server Error'')"
  using assms by (simp add: getSetlistById_def)


section \<open>Reordering entries\<close>

text \<open>
  C1. A reorder whose update list names an entry id that no entry of the setlist has
  (the id does not exist, or belongs to an entry of another setlist) fails as a whole:
  it is answered with an error and the store afterwards is the store before, so every
  entry keeps its position and its block. As the controller stands this is so because
  no reorder is ever applied: a call that passes the three tests raises at
  \<open>sequelize\<close> before its callback runs.
\<close>

theorem reorder_naming_foreign_entry_fails:
  assumes "names_foreign_entry st sid us"
  shows "fst (fst (reorderSetlistSongs st now user sid (SongsArray us))) \<in> {400, 403, 404, 500}
       \<and> snd (reorderSetlistSongs st now user sid (SongsArray us)) = st
       \<and> SetlistSong_rows (snd (reorderSetlistSongs st now user sid (SongsArray us)))
           = SetlistSong_rows st"
  using reorderSetlistSongs_status [of st now user sid "SongsArray us"]
  by (simp add: reorderSetlistSongs_writes_nothing)

text \<open>
  The creator of \<open>S1\<close> moves \<open>e1\<close> and also names the id \<open>ghost\<close>, which no entry has;
  then the creator names \<open>e3\<close>, an entry of \<open>S2\<close>. Both calls are answered 500 and leave
  the store as it was.
\<close>

theorem reorder_naming_foreign_entry_fails_witness:
  "names_foreign_entry sample ''S1'' [move ''e1'' 2, move ''ghost'' 7]
   \<and> reorderSetlistSongs sample 5 ''U1'' ''S1'' (SongsArray [move ''e1'' 2, move ''ghost'' 7])
       = ((500, Text ''Server Error''), sample)
   \<and> names_foreign_entry sample ''S1'' [move ''e3'' 4]
   \<and> reorderSetlistSongs sample 5 ''U1'' ''S1'' (SongsArray [move ''e3'' 4])
       = ((500, Text ''Server Error''), sample)"
proof -
  have ghost: "names_foreign_entry sample ''S1'' [move ''e1'' 2, move ''ghost'' 7]"
    and other: "names_foreign_entry sample ''S1'' [move ''e3'' 4]"
    by (simp_all add: names_foreign_entry_def sample_defs)
  have S1: "findByPk_Setlist sample ''S1'' = Some S1" "sl_created_by S1 = ''U1''"
    by (simp_all add: sample_defs query_defs)
  have runs: "reorderSetlistSongs sample 5 ''U1'' ''S1'' (SongsArray [move ''e1'' 2, move ''ghost'' 7])
       = ((500, Text ''Server Error''), sample)"
      "reorderSetlistSongs sample 5 ''U1'' ''S1'' (SongsArray [move ''e3'' 4])
       = ((500, Text ''Server Error''), sample)"
    by (simp_all add: reorderSetlistSongs_past_tests [OF _ S1])
  from reorder_naming_foreign_entry_fails [OF ghost, of 5 "''U1''"] ghost other runs
  show ?thesis by blast
qed

text \<open>
  C6. Sending the same reorder twice leaves the entries exactly as sending it once does,
  and the second call answers what the first one answered. This holds for every store,
  actor, setlist id and \<open>songs\<close> value.
\<close>

theorem reorder_twice_same_as_once:
  "SetlistSong_rows
     (snd (reorderSetlistSongs (snd (reorderSetlistSongs st n1 user sid songs)) n2 user sid songs))
     = SetlistSong_rows (snd (reorderSetlistSongs st n1 user sid songs))
   \<and> fst (reorderSetlistSongs (snd (reorderSetlistSongs st n1 user sid songs)) n2 user sid songs)
     = fst (reorderSetlistSongs st n1 user sid songs)"
proof -
  have once: "snd (reorderSetlistSongs st n1 user sid songs) = st"
    by (rule reorderSetlistSongs_writes_nothing)
  have twice: "snd (reorderSetlistSongs st n2 user sid songs) = st"
    by (rule reorderSetlistSongs_writes_nothing)
  have same: "fst (reorderSetlistSongs st n2 user sid songs)
                = fst (reorderSetlistSongs st n1 user sid songs)"
    by (rule reorderSetlistSongs_any_time)
  show ?thesis unfolding once twice using same by simp
qed

text \<open>
  The scenario of the specification, on the controller as it stands: the creator of
  \<open>S1\<close> asks for \<open>e1\<close> and \<open>e2\<close> to swap their positions. The call is answered 500 and the
  entries stay as they were; the second identical call does the same.
\<close>

theorem reorder_twice_same_as_once_witness:
  "reorderSetlistSongs sample 5 ''U1'' ''S1'' (SongsArray swap_two)
     = ((500, Text ''Server Error''), sample)
   \<and> SetlistSong_rows
        (snd (reorderSetlistSongs
                (snd (reorderSetlistSongs sample 5 ''U1'' ''S1'' (SongsArray swap_two)))
                6 ''U1'' ''S1'' (SongsArray swap_two)))
     = SetlistSong_rows sample
   \<and> fst (reorderSetlistSongs
            (snd (reorderSetlistSongs sample 5 ''U1'' ''S1'' (SongsArray swap_two)))
            6 ''U1'' ''S1'' (SongsArray swap_two))
     = (500, Text ''Server Error'')"
proof -
  have S1: "findByPk_Setlist sample ''S1'' = Some S1" "sl_created_by S1 = ''U1''"
    by (simp_all add: sample_defs query_defs)
  have once: "reorderSetlistSongs sample 5 ''U1'' ''S1'' (SongsArray swap_two)
     = ((500, Text ''Server Error''), sample)"
    by (simp add: reorderSetlistSongs_past_tests [OF _ S1] swap_two_def)
  have rows: "SetlistSong_rows (snd (reorderSetlistSongs sample 5 ''U1'' ''S1'' (SongsArray swap_two)))
     = SetlistSong_rows sample"
    and resp: "fst (reorderSetlistSongs sample 5 ''U1'' ''S1'' (SongsArray swap_two))
     = (500, Text ''Server Error'')"
    unfolding once by simp_all
  from reorder_twice_same_as_once [of sample 5 "''U1''" "''S1''" "SongsArray swap_two" 6] once
  show ?thesis unfolding rows resp by blast
qed

text \<open>
  C9. A reorder whose \<open>songs\<close> value is missing, is not an array, or is the empty array
  is answered 400 with the store untouched, for every store, actor and setlist id: the
  answer does not depend on whether the setlist exists or the actor may edit it, so the
  test comes before both.
\<close>

theorem reorder_requires_nonempty_array:
  "reorderSetlistSongs st now user sid Absent = ((400, Msg ''Songs array is required''), st)
   \<and> reorderSetlistSongs st now user sid NotArray = ((400, Msg ''Songs array is required''), st)
   \<and> reorderSetlistSongs st now user sid (SongsArray [])
       = ((400, Msg ''Songs array is required''), st)"
  by (simp add: reorderSetlistSongs_def)

text \<open>
  A stranger and a setlist id that does not exist both get 400 for such a list, where a
  non-empty list gets them 403 and 404.
\<close>

theorem reorder_requires_nonempty_array_witness:
  "reorderSetlistSongs sample 3 ''U9'' ''S1'' (SongsArray [])
     = ((400, Msg ''Songs array is required''), sample)
   \<and> reorderSetlistSongs sample 3 ''U1'' ''nowhere'' Absent
     = ((400, Msg ''Songs array is required''), sample)
   \<and> reorderSetlistSongs sample 3 ''U9'' ''S1'' NotArray
     = ((400, Msg ''Songs array is required''), sample)
   \<and> fst (fst (reorderSetlistSongs sample 3 ''U9'' ''S1'' (SongsArray [move ''e1'' 2]))) = 403
   \<and> fst (fst (reorderSetlistSongs sample 3 ''U1'' ''nowhere'' (SongsArray [move ''e1'' 2]))) = 404"
  using reorder_requires_nonempty_array [of sample 3 "''U9''" "''S1''"]
        reorder_requires_nonempty_array [of sample 3 "''U1''" "''nowhere''"]
  by (simp add: handler_defs sample_defs query_defs)

section \<open>Listing entries\<close>

text \<open>
  C2, as the code has it. The claim says that the listing is grouped by ascending block
  position and ordered by entry position within each block. Every listing query of the
  controller orders by the entry's \<open>position\<close> column alone. What holds is this: after
  any sequence of add, remove and reorder calls, a listing answered 200 holds exactly
  the entries of the setlist, in ascending entry position, whatever their blocks.
\<close>

theorem getSetlistSongs_ordered_by_position:
  assumes "getSetlistSongs (apply_calls st cs) user sid = (200, SetlistSongsJson xs)"
  shows "sorted (map ss_position xs)
       \<and> mset xs = mset (filter (\<lambda>r. ss_setlist_id r = sid)
                          (SetlistSong_rows (apply_calls st cs)))"
  using assms
  by (auto simp: getSetlistSongs_def findAll_SetlistSong_def
        split: option.splits if_splits result.splits)

text \<open>
  Two entries are added to \<open>S1\<close>: song \<open>A\<close> at position 3 in block \<open>K2\<close> (the second
  block) and song \<open>B\<close> at position 4 in block \<open>K1\<close> (the first block).
\<close>

theorem getSetlistSongs_ordered_by_position_witness:
  "getSetlistSongs (apply_calls sample two_adds) ''U1'' ''S1'' =
     (200, SetlistSongsJson
        [entry ''e1'' ''S1'' ''A'' 1 None, entry ''e2'' ''S1'' ''B'' 2 None,
         entry ''n1'' ''S1'' ''A'' 3 (Some ''K2''), entry ''n2'' ''S1'' ''B'' 4 (Some ''K1'')])
   \<and> sorted (map ss_position
        [entry ''e1'' ''S1'' ''A'' 1 None, entry ''e2'' ''S1'' ''B'' 2 None,
         entry ''n1'' ''S1'' ''A'' 3 (Some ''K2''), entry ''n2'' ''S1'' ''B'' 4 (Some ''K1'')])"
  using getSetlistSongs_ordered_by_position [OF listing_two_adds] listing_two_adds
  by simp

text \<open>
  The same listing is not in the order the claim describes: the entry of the second
  block comes before the entry of the first.
\<close>

theorem listing_not_grouped_by_block_counterexample:
  "getSetlistSongs (apply_calls sample two_adds) ''U1'' ''S1'' =
     (200, SetlistSongsJson
        [entry ''e1'' ''S1'' ''A'' 1 None, entry ''e2'' ''S1'' ''B'' 2 None,
         entry ''n1'' ''S1'' ''A'' 3 (Some ''K2''), entry ''n2'' ''S1'' ''B'' 4 (Some ''K1'')])
   \<and> \<not> block_then_entry_order (apply_calls sample two_adds)
        [entry ''e1'' ''S1'' ''A'' 1 None, entry ''e2'' ''S1'' ''B'' 2 None,
         entry ''n1'' ''S1'' ''A'' 3 (Some ''K2''), entry ''n2'' ''S1'' ''B'' 4 (Some ''K1'')]"
proof -
  have "\<not> block_then_entry_order (apply_calls sample two_adds)
        [entry ''e1'' ''S1'' ''A'' 1 None, entry ''e2'' ''S1'' ''B'' 2 None,
         entry ''n1'' ''S1'' ''A'' 3 (Some ''K2''), entry ''n2'' ''S1'' ''B'' 4 (Some ''K1'')]"
    unfolding sample_two_adds
    by (simp add: block_then_entry_order_def block_position_def sample_defs query_defs)
  with listing_two_adds show ?thesis by simp
qed

section \<open>Access\<close>

text \<open>
  C3. An actor who is not the creator of a private setlist and not a member of its band
  is to be answered 403 by every operation. On a setlist without a band list-songs,
  update, delete, add, remove and reorder do so (\<open>other_actor_unbanded\<close>), add and
  reorder after their input tests. Get-by-id reads \<open>setlist.band.members\<close> without
  testing that the band is there: on the private setlist \<open>S1\<close>, which has no band, the
  stranger \<open>U9\<close> is answered 500.
\<close>

theorem getSetlistById_stranger_unbanded:
  "findByPk_Setlist sample ''S1'' = Some S1
   \<and> sl_created_by S1 \<noteq> ''U9'' \<and> sl_band_id S1 = None \<and> sl_is_public S1 = False
   \<and> getSetlistById sample ''U9'' ''S1'' = (500, Text ''Server Error'')"
  by (simp add: getSetlistById_def sample_defs query_defs)

text \<open>For the same actor and setlist, list-songs answers 403.\<close>

theorem getSetlistById_stranger_unbanded_witness:
  "fst (getSetlistById sample ''U9'' ''S1'') \<noteq> 403
   \<and> getSetlistSongs sample ''U9'' ''S1'' = (403, Msg ''Access denied'')"
  using getSetlistById_stranger_unbanded
  by (simp add: getSetlistSongs_def sample_defs query_defs)

text \<open>
  C4. On a setlist that belongs to a band, add, remove and reorder are to succeed for
  every member of the band whatever the role. The three handlers ask
  \<open>isUserBandMember\<close>, which reads the unbound \<open>BandMember\<close>: the plain member \<open>U2\<close> of
  the band of \<open>S2\<close> is answered 500 by each of them on a request that is otherwise in
  order, and nothing is written.
\<close>

theorem band_member_entry_calls_raise:
  "\<lparr>bm_band_id = ''B1'', bm_user_id = ''U2'', bm_role = ''member''\<rparr> \<in> set (BandMember_rows sample)
   \<and> findByPk_Setlist sample ''S2'' = Some S2
   \<and> sl_band_id S2 = Some ''B1'' \<and> sl_created_by S2 \<noteq> ''U2''
   \<and> findByPk_Song sample ''B'' \<noteq> None
   \<and> addSongToSetlist sample 9 ''n1'' ''U2'' ''S2'' (add_req ''B'' 2 None)
       = ((500, Text ''Server Error''), sample)
   \<and> removeSongFromSetlist sample 9 ''U2'' ''S2'' ''A'' = ((500, Text ''Server Error''), sample)
   \<and> reorderSetlistSongs sample 9 ''U2'' ''S2'' (SongsArray [move ''e3'' 4])
       = ((500, Text ''Server Error''), sample)"
  by (simp add: handler_defs sample_defs query_defs)

text \<open>
  The same add by the creator \<open>U1\<close> is answered 201; update and delete by the admin \<open>U3\<close>
  raise in the same way as the member's calls.
\<close>

theorem band_member_entry_calls_raise_witness:
  "fst (fst (addSongToSetlist sample 9 ''n1'' ''U2'' ''S2'' (add_req ''B'' 2 None))) \<noteq> 201
   \<and> fst (fst (addSongToSetlist sample 9 ''n1'' ''U1'' ''S2'' (add_req ''B'' 2 None))) = 201
   \<and> updateSetlist sample 9 ''U3'' ''S2'' new_name = ((500, Text ''Server Error''), sample)
   \<and> deleteSetlist sample ''U3'' ''S2'' = ((500, Text ''Server Error''), sample)"
proof -
  have creator: "fst (fst (addSongToSetlist sample 9 ''n1'' ''U1'' ''S2'' (add_req ''B'' 2 None))) = 201"
    by (simp add: handler_defs sample_defs query_defs Let_def)
  have admin: "updateSetlist sample 9 ''U3'' ''S2'' new_name = ((500, Text ''Server Error''), sample)"
      "deleteSetlist sample ''U3'' ''S2'' = ((500, Text ''Server Error''), sample)"
    by (simp_all add: handler_defs sample_defs query_defs)
  from band_member_entry_calls_raise creator admin show ?thesis by simp
qed

section \<open>Deleting a setlist\<close>

text \<open>
  C5. A delete answered 200 first destroys the entries of the setlist, then its blocks,
  then the setlist row, which is still there after the first two steps. Afterwards no
  entry and no block names the setlist id, the setlist cannot be found, and the entries
  and blocks of other setlists are the ones there were.
\<close>

theorem deleteSetlist_cascades:
  assumes "deleteSetlist st user sid = ((200, b), st')"
  shows "(\<exists>sl. findByPk_Setlist st sid = Some sl
             \<and> st' = destroy_Setlist sl (destroy_Blocks sid (destroy_SetlistSongs sid st))
             \<and> findByPk_Setlist (destroy_Blocks sid (destroy_SetlistSongs sid st)) sid = Some sl)
       \<and> filter (\<lambda>r. ss_setlist_id r = sid) (SetlistSong_rows st') = []
       \<and> filter (\<lambda>k. bl_setlist_id k = sid) (Block_rows st') = []
       \<and> findByPk_Setlist st' sid = None
       \<and> SetlistSong_rows st' = filter (\<lambda>r. ss_setlist_id r \<noteq> sid) (SetlistSong_rows st)
       \<and> Block_rows st' = filter (\<lambda>k. bl_setlist_id k \<noteq> sid) (Block_rows st)"
proof -
  from assms obtain sl where sl: "findByPk_Setlist st sid = Some sl"
    and may: "may_change_setlist st user sl = Returns True"
    by (auto simp: deleteSetlist_def split: option.splits if_splits result.splits)
  have id: "sl_id sl = sid" by (rule findByPk_Setlist_id [OF sl])
  have st': "st' = destroy_Setlist sl (destroy_Blocks sid (destroy_SetlistSongs sid st))"
    using assms sl may id by (simp add: deleteSetlist_def Let_def)
  have still: "findByPk_Setlist (destroy_Blocks sid (destroy_SetlistSongs sid st)) sid = Some sl"
    using sl by (simp add: findByPk_Setlist_def destroy_Blocks_def destroy_SetlistSongs_def)
  have gone: "findByPk_Setlist st' sid = None"
    by (simp add: st' findByPk_Setlist_def destroy_Setlist_def destroy_Blocks_def
          destroy_SetlistSongs_def find_None_iff id)
  have rows: "SetlistSong_rows st' = filter (\<lambda>r. ss_setlist_id r \<noteq> sid) (SetlistSong_rows st)"
    by (simp add: st' destroy_Setlist_def destroy_Blocks_def destroy_SetlistSongs_def)
  have blocks: "Block_rows st' = filter (\<lambda>k. bl_setlist_id k \<noteq> sid) (Block_rows st)"
    by (simp add: st' destroy_Setlist_def destroy_Blocks_def destroy_SetlistSongs_def)
  have no_rows: "filter (\<lambda>r. ss_setlist_id r = sid) (SetlistSong_rows st') = []"
    by (simp add: rows filter_empty_conv)
  have no_blocks: "filter (\<lambda>k. bl_setlist_id k = sid) (Block_rows st') = []"
    by (simp add: blocks filter_empty_conv)
  from sl st' still no_rows no_blocks gone rows blocks show ?thesis by blast
qed

text \<open>The creator deletes \<open>S1\<close> with its two entries and two blocks; \<open>S2\<close> keeps its own.\<close>

theorem deleteSetlist_cascades_witness:
  "deleteSetlist sample ''U1'' ''S1'' =
     ((200, Msg ''Setlist deleted''),
      sample\<lparr>Setlist_rows := [S2],
             SetlistSong_rows := [entry ''e3'' ''S2'' ''A'' 1 (Some ''K3'')],
             Block_rows := [\<lparr>bl_id = ''K3'', bl_setlist_id = ''S2'', bl_name = ''Set 1'',
                             bl_position = 1\<rparr>]\<rparr>)
   \<and> filter (\<lambda>r. ss_setlist_id r = ''S1'')
        (SetlistSong_rows (snd (deleteSetlist sample ''U1'' ''S1''))) = []
   \<and> filter (\<lambda>k. bl_setlist_id k = ''S1'')
        (Block_rows (snd (deleteSetlist sample ''U1'' ''S1''))) = []
   \<and> findByPk_Setlist (snd (deleteSetlist sample ''U1'' ''S1'')) ''S1'' = None"
proof -
  have run: "deleteSetlist sample ''U1'' ''S1'' =
     ((200, Msg ''Setlist deleted''),
      sample\<lparr>Setlist_rows := [S2],
             SetlistSong_rows := [entry ''e3'' ''S2'' ''A'' 1 (Some ''K3'')],
             Block_rows := [\<lparr>bl_id = ''K3'', bl_setlist_id = ''S2'', bl_name = ''Set 1'',
                             bl_position = 1\<rparr>]\<rparr>)"
    by (simp add: handler_defs sample_defs query_defs Let_def)
  from deleteSetlist_cascades [OF run] show ?thesis unfolding run snd_conv by blast
qed

section \<open>Adding and removing entries\<close>

text \<open>
  C7, as the code has it. The claim says that every add naming a song that does not
  exist is answered NotFound, and every add naming a block that is not a block of the
  target setlist is answered InvalidInput. The handler tests the request, the setlist
  and the actor first, and the song before the block. What holds is this. An add that
  names a song no song row has, or a non-empty block id that no block of the target
  setlist has, creates nothing: the store is returned as it was, with an error. When
  the request has passed validation, the setlist exists and the actor is its creator,
  the answer is 404 \<open>Song not found\<close> if the song does not exist, and 400
  \<open>Invalid block ID\<close> if the song exists and the block id is such a one.
\<close>

theorem addSongToSetlist_by_creator_checks_references:
  "(((\<forall>s \<in> set (Song_rows st). sg_id s \<noteq> ar_song_id req)
      \<or> (ar_block_id req = Some b \<and> b \<noteq> []
          \<and> (\<forall>k \<in> set (Block_rows st). bl_id k = b \<longrightarrow> bl_setlist_id k \<noteq> sid)))
     \<longrightarrow> snd (addSongToSetlist st now newId user sid req) = st
         \<and> fst (fst (addSongToSetlist st now newId user sid req)) \<in> {400, 403, 404, 500})
   \<and> (ar_errors req = [] \<and> findByPk_Setlist st sid = Some sl \<and> sl_created_by sl = user
        \<and> (\<forall>s \<in> set (Song_rows st). sg_id s \<noteq> ar_song_id req)
      \<longrightarrow> addSongToSetlist st now newId user sid req = ((404, Msg ''Song not found''), st))
   \<and> (ar_errors req = [] \<and> findByPk_Setlist st sid = Some sl \<and> sl_created_by sl = user
        \<and> (\<exists>s \<in> set (Song_rows st). sg_id s = ar_song_id req)
        \<and> ar_block_id req = Some b \<and> b \<noteq> []
        \<and> (\<forall>k \<in> set (Block_rows st). bl_id k = b \<longrightarrow> bl_setlist_id k \<noteq> sid)
      \<longrightarrow> addSongToSetlist st now newId user sid req = ((400, Msg ''Invalid block ID''), st))"
proof -
  have no_song: "snd (addSongToSetlist st now newId user sid req) = st
         \<and> fst (fst (addSongToSetlist st now newId user sid req)) \<in> {400, 403, 404, 500}"
    if "findByPk_Song st (ar_song_id req) = None"
    using that
    by (auto simp: addSongToSetlist_def Let_def split: option.splits result.splits)
  have no_block: "snd (addSongToSetlist st now newId user sid req) = st
         \<and> fst (fst (addSongToSetlist st now newId user sid req)) \<in> {400, 403, 404, 500}"
    if "invalid_block st sid (ar_block_id req)"
    using that
    by (auto simp: addSongToSetlist_def Let_def split: option.splits result.splits)
  have first: "snd (addSongToSetlist st now newId user sid req) = st
         \<and> fst (fst (addSongToSetlist st now newId user sid req)) \<in> {400, 403, 404, 500}"
    if "(\<forall>s \<in> set (Song_rows st). sg_id s \<noteq> ar_song_id req)
      \<or> (ar_block_id req = Some b \<and> b \<noteq> []
          \<and> (\<forall>k \<in> set (Block_rows st). bl_id k = b \<longrightarrow> bl_setlist_id k \<noteq> sid))"
    using that
  proof
    assume "\<forall>s \<in> set (Song_rows st). sg_id s \<noteq> ar_song_id req"
    then have "findByPk_Song st (ar_song_id req) = None" by (rule missing_song)
    then show ?thesis by (rule no_song)
  next
    assume blk: "ar_block_id req = Some b \<and> b \<noteq> []
          \<and> (\<forall>k \<in> set (Block_rows st). bl_id k = b \<longrightarrow> bl_setlist_id k \<noteq> sid)"
    then have "invalid_block st sid (Some b)" by (simp add: foreign_block_invalid)
    with blk have "invalid_block st sid (ar_block_id req)" by simp
    then show ?thesis by (rule no_block)
  qed
  have song: "addSongToSetlist st now newId user sid req = ((404, Msg ''Song not found''), st)"
    if "ar_errors req = []" "findByPk_Setlist st sid = Some sl" "sl_created_by sl = user"
       "\<forall>s \<in> set (Song_rows st). sg_id s \<noteq> ar_song_id req"
    using that(1,2) creator_may_edit [OF that(3), of st] missing_song [OF that(4)]
    by (simp add: addSongToSetlist_def)
  have block: "addSongToSetlist st now newId user sid req = ((400, Msg ''Invalid block ID''), st)"
    if "ar_errors req = []" "findByPk_Setlist st sid = Some sl" "sl_created_by sl = user"
       "\<exists>s \<in> set (Song_rows st). sg_id s = ar_song_id req"
       "ar_block_id req = Some b" "b \<noteq> []"
       "\<forall>k \<in> set (Block_rows st). bl_id k = b \<longrightarrow> bl_setlist_id k \<noteq> sid"
  proof -
    from existing_song [OF that(4)] obtain s where s: "findByPk_Song st (ar_song_id req) = Some s" ..
    from foreign_block_invalid [OF that(6,7)] that(5)
    have "invalid_block st sid (ar_block_id req)" by simp
    with that(1,2) s creator_may_edit [OF that(3), of st] show ?thesis
      by (simp add: addSongToSetlist_def)
  qed
  from first song block show ?thesis by blast
qed

text \<open>
  The creator of \<open>S1\<close> adds the unknown song \<open>Z\<close>, then song \<open>A\<close> into block \<open>K3\<close>, which
  is a block of \<open>S2\<close>.
\<close>

theorem addSongToSetlist_by_creator_checks_references_witness:
  "findByPk_Setlist sample ''S1'' = Some S1 \<and> sl_created_by S1 = ''U1''
   \<and> list_all (\<lambda>s. sg_id s \<noteq> ''Z'') (Song_rows sample)
   \<and> addSongToSetlist sample 9 ''n1'' ''U1'' ''S1'' (add_req ''Z'' 3 None)
       = ((404, Msg ''Song not found''), sample)
   \<and> list_ex (\<lambda>s. sg_id s = ''A'') (Song_rows sample)
   \<and> list_all (\<lambda>k. bl_id k \<noteq> ''K3'' \<or> bl_setlist_id k \<noteq> ''S1'') (Block_rows sample)
   \<and> addSongToSetlist sample 9 ''n1'' ''U1'' ''S1'' (add_req ''A'' 3 (Some ''K3''))
       = ((400, Msg ''Invalid block ID''), sample)"
proof -
  have pre: "ar_errors (add_req ''Z'' 3 None) = []" "ar_errors (add_req ''A'' 3 (Some ''K3'')) = []"
      "findByPk_Setlist sample ''S1'' = Some S1" "sl_created_by S1 = ''U1''"
    by (simp_all add: sample_defs query_defs)
  have noZ: "\<forall>s \<in> set (Song_rows sample). sg_id s \<noteq> ar_song_id (add_req ''Z'' 3 None)"
    and hasA: "\<exists>s \<in> set (Song_rows sample). sg_id s = ar_song_id (add_req ''A'' 3 (Some ''K3''))"
    and K3: "ar_block_id (add_req ''A'' 3 (Some ''K3'')) = Some ''K3''" "''K3'' \<noteq> []"
      "\<forall>k \<in> set (Block_rows sample). bl_id k = ''K3'' \<longrightarrow> bl_setlist_id k \<noteq> ''S1''"
    by (simp_all add: sample_defs)
  have lists: "list_all (\<lambda>s. sg_id s \<noteq> ''Z'') (Song_rows sample)"
      "list_ex (\<lambda>s. sg_id s = ''A'') (Song_rows sample)"
      "list_all (\<lambda>k. bl_id k \<noteq> ''K3'' \<or> bl_setlist_id k \<noteq> ''S1'') (Block_rows sample)"
    by (simp_all add: sample_defs)
  from addSongToSetlist_by_creator_checks_references
         [of sample "add_req ''Z'' 3 None" _ "''S1''" 9 "''n1''" "''U1''" S1] pre noZ
  have Z: "addSongToSetlist sample 9 ''n1'' ''U1'' ''S1'' (add_req ''Z'' 3 None)
       = ((404, Msg ''Song not found''), sample)"
    by blast
  from addSongToSetlist_by_creator_checks_references
         [of sample "add_req ''A'' 3 (Some ''K3'')" "''K3''" "''S1''" 9 "''n1''" "''U1''" S1]
       pre hasA K3
  have A: "addSongToSetlist sample 9 ''n1'' ''U1'' ''S1'' (add_req ''A'' 3 (Some ''K3''))
       = ((400, Msg ''Invalid block ID''), sample)"
    by blast
  from pre lists Z A show ?thesis by simp
qed

text \<open>
  The claim as written fails where an earlier test answers. The stranger \<open>U9\<close> adding the
  unknown song \<open>Z\<close> to \<open>S1\<close> is answered 403; a request that failed validation is
  answered 400 for the same song; and the creator naming the unknown song together with
  the foreign block \<open>K3\<close> is answered 404, not 400.
\<close>

theorem addSongToSetlist_earlier_tests_counterexample:
  "findByPk_Song sample ''Z'' = None
   \<and> addSongToSetlist sample 9 ''n1'' ''U9'' ''S1'' (add_req ''Z'' 3 None)
       = ((403, Msg ''You do not have permission to update this setlist''), sample)
   \<and> addSongToSetlist sample 9 ''n1'' ''U1'' ''S1''
         \<lparr>ar_errors = [''Position is required and must be a number''], ar_song_id = ''Z'',
          ar_position = 0, ar_block_id = None, ar_notes = None\<rparr>
       = ((400, Errors [''Position is required and must be a number'']), sample)
   \<and> findByPk_Block sample ''K3'' \<noteq> None
   \<and> addSongToSetlist sample 9 ''n1'' ''U1'' ''S1'' (add_req ''Z'' 3 (Some ''K3''))
       = ((404, Msg ''Song not found''), sample)"
  by (simp add: handler_defs sample_defs query_defs)

text \<open>
  C8. An add answered 201 appends the new entry and leaves the rows that were there as
  they were, in place. A remove answered 200 deletes one entry of the setlist for the
  given song (by its id) and keeps every entry with another id as it was. Neither
  renumbers anything.
\<close>

theorem add_remove_keep_other_entries:
  "(addSongToSetlist st now newId user sid req = ((201, b), st')
      \<longrightarrow> SetlistSong_rows st' = SetlistSong_rows st @
            [\<lparr>ss_id = newId, ss_setlist_id = sid, ss_song_id = ar_song_id req,
              ss_position = ar_position req, ss_block_id = or_null (ar_block_id req),
              ss_notes = or_null (ar_notes req)\<rparr>])
   \<and> (removeSongFromSetlist st now user sid songId = ((200, b'), st'')
      \<longrightarrow> (\<exists>e \<in> set (SetlistSong_rows st).
             ss_setlist_id e = sid \<and> ss_song_id e = songId
             \<and> SetlistSong_rows st'' = filter (\<lambda>r. ss_id r \<noteq> ss_id e) (SetlistSong_rows st)))"
proof -
  have add: "addSongToSetlist st now newId user sid req = ((201, b), st')
      \<longrightarrow> SetlistSong_rows st' = SetlistSong_rows st @
            [\<lparr>ss_id = newId, ss_setlist_id = sid, ss_song_id = ar_song_id req,
              ss_position = ar_position req, ss_block_id = or_null (ar_block_id req),
              ss_notes = or_null (ar_notes req)\<rparr>]"
    by (auto simp: addSongToSetlist_def Let_def touch_def
          split: option.splits if_splits result.splits)
  have rem: "removeSongFromSetlist st now user sid songId = ((200, b'), st'')
      \<longrightarrow> (\<exists>e \<in> set (SetlistSong_rows st).
             ss_setlist_id e = sid \<and> ss_song_id e = songId
             \<and> SetlistSong_rows st'' = filter (\<lambda>r. ss_id r \<noteq> ss_id e) (SetlistSong_rows st))"
    using removeSongFromSetlist_success [of st now user sid songId b' st''] by blast
  from add rem show ?thesis by blast
qed

text \<open>
  Song \<open>B\<close> is added to \<open>S1\<close> at position 1, which \<open>e1\<close> already has: \<open>e1\<close>, \<open>e2\<close> and \<open>e3\<close>
  stay as they are. Song \<open>A\<close> is removed from \<open>S1\<close>: \<open>e2\<close> and \<open>e3\<close> stay as they are.
\<close>

theorem add_remove_keep_other_entries_witness:
  "addSongToSetlist sample 9 ''n1'' ''U1'' ''S1'' (add_req ''B'' 1 (Some ''K1''))
     = ((201, SetlistSongJson (Some (entry ''n1'' ''S1'' ''B'' 1 (Some ''K1'')))),
        sample\<lparr>Setlist_rows := [S1\<lparr>sl_updated_at := 9\<rparr>, S2],
               SetlistSong_rows :=
                 SetlistSong_rows sample @ [entry ''n1'' ''S1'' ''B'' 1 (Some ''K1'')]\<rparr>)
   \<and> removeSongFromSetlist sample 9 ''U1'' ''S1'' ''A''
     = ((200, Msg ''Song removed from setlist''),
        sample\<lparr>Setlist_rows := [S1\<lparr>sl_updated_at := 9\<rparr>, S2],
               SetlistSong_rows := [entry ''e2'' ''S1'' ''B'' 2 None,
                                    entry ''e3'' ''S2'' ''A'' 1 (Some ''K3'')]\<rparr>)"
proof -
  have add: "addSongToSetlist sample 9 ''n1'' ''U1'' ''S1'' (add_req ''B'' 1 (Some ''K1''))
     = ((201, SetlistSongJson (Some (entry ''n1'' ''S1'' ''B'' 1 (Some ''K1'')))),
        sample\<lparr>Setlist_rows := [S1\<lparr>sl_updated_at := 9\<rparr>, S2],
               SetlistSong_rows :=
                 SetlistSong_rows sample @ [entry ''n1'' ''S1'' ''B'' 1 (Some ''K1'')]\<rparr>)"
    by (simp add: handler_defs sample_defs query_defs Let_def)
  have rem: "removeSongFromSetlist sample 9 ''U1'' ''S1'' ''A''
     = ((200, Msg ''Song removed from setlist''),
        sample\<lparr>Setlist_rows := [S1\<lparr>sl_updated_at := 9\<rparr>, S2],
               SetlistSong_rows := [entry ''e2'' ''S1'' ''B'' 2 None,
                                    entry ''e3'' ''S2'' ''A'' 1 (Some ''K3'')]\<rparr>)"
    by (simp add: handler_defs sample_defs query_defs Let_def)
  show ?thesis
    using add_remove_keep_other_entries
      [of sample 9 "''n1''" "''U1''" "''S1''" "add_req ''B'' 1 (Some ''K1'')"
          "SetlistSongJson (Some (entry ''n1'' ''S1'' ''B'' 1 (Some ''K1'')))"
          "sample\<lparr>Setlist_rows := [S1\<lparr>sl_updated_at := 9\<rparr>, S2],
               SetlistSong_rows :=
                 SetlistSong_rows sample @ [entry ''n1'' ''S1'' ''B'' 1 (Some ''K1'')]\<rparr>"
          "''A''" "Msg ''Song removed from setlist''"
          "sample\<lparr>Setlist_rows := [S1\<lparr>sl_updated_at := 9\<rparr>, S2],
               SetlistSong_rows := [entry ''e2'' ''S1'' ''B'' 2 None,
                                    entry ''e3'' ''S2'' ''A'' 1 (Some ''K3'')]\<rparr>"]
      add rem
    by simp
qed

section \<open>The client after a removal\<close>

text \<open>
  C10. When \<open>removeSongFromSetlist\<close> is fulfilled, the reducer keeps exactly the entries
  whose \<open>song_id\<close> differs from the payload's: no entry of that song is left, however
  many there were. The server, for a store whose entry ids are distinct, removes
  exactly one row on a remove answered 200.
\<close>

theorem client_removes_every_entry_of_song:
  "setlistSongs (removeSongFromSetlist_fulfilled state payload)
     = filter (\<lambda>e. ss_song_id e \<noteq> rp_song_id payload) (setlistSongs state)
   \<and> (\<forall>e \<in> set (setlistSongs (removeSongFromSetlist_fulfilled state payload)).
         ss_song_id e \<noteq> rp_song_id payload)
   \<and> length (setlistSongs (removeSongFromSetlist_fulfilled state payload))
       + length (filter (\<lambda>e. ss_song_id e = rp_song_id payload) (setlistSongs state))
       = length (setlistSongs state)
   \<and> (distinct (map ss_id (SetlistSong_rows st))
        \<and> removeSongFromSetlist st now user (rp_setlist_id payload) (rp_song_id payload)
            = ((200, b), st')
      \<longrightarrow> length (SetlistSong_rows st') + 1 = length (SetlistSong_rows st))"
proof -
  have server: "distinct (map ss_id (SetlistSong_rows st))
        \<and> removeSongFromSetlist st now user (rp_setlist_id payload) (rp_song_id payload)
            = ((200, b), st')
      \<longrightarrow> length (SetlistSong_rows st') + 1 = length (SetlistSong_rows st)"
    using removeSongFromSetlist_success
            [of st now user "rp_setlist_id payload" "rp_song_id payload" b st']
    by (auto simp: length_filter_distinct_id)
  have len: "length (filter (\<lambda>e. ss_song_id e \<noteq> rp_song_id payload) (setlistSongs state))
       + length (filter (\<lambda>e. ss_song_id e = rp_song_id payload) (setlistSongs state))
       = length (setlistSongs state)"
    using sum_length_filter_compl [of "\<lambda>e. ss_song_id e = rp_song_id payload" "setlistSongs state"]
    by simp
  show ?thesis
    using server len by (simp add: removeSongFromSetlist_fulfilled_def)
qed

text \<open>
  Song \<open>A\<close> is played twice in \<open>S1\<close>. The client drops both of its entries; the server
  drops the first and keeps \<open>e4\<close>.
\<close>

theorem client_removes_every_entry_of_song_witness:
  "setlistSongs (removeSongFromSetlist_fulfilled client \<lparr>rp_setlist_id = ''S1'', rp_song_id = ''A''\<rparr>)
     = [entry ''e2'' ''S1'' ''B'' 2 None]
   \<and> distinct (map ss_id (SetlistSong_rows reprise))
   \<and> SetlistSong_rows (snd (removeSongFromSetlist reprise 9 ''U1'' ''S1'' ''A''))
     = [entry ''e2'' ''S1'' ''B'' 2 None, entry ''e4'' ''S1'' ''A'' 3 None]
   \<and> fst (removeSongFromSetlist reprise 9 ''U1'' ''S1'' ''A'')
     = (200, Msg ''Song removed from setlist'')"
proof -
  have rem: "removeSongFromSetlist reprise 9 ''U1'' ''S1'' ''A''
     = ((200, Msg ''Song removed from setlist''),
        reprise\<lparr>Setlist_rows := [S1\<lparr>sl_updated_at := 9\<rparr>, S2],
                SetlistSong_rows :=
                  [entry ''e2'' ''S1'' ''B'' 2 None, entry ''e4'' ''S1'' ''A'' 3 None]\<rparr>)"
    by (simp add: handler_defs reprise_def sample_defs query_defs Let_def)
  have d: "distinct (map ss_id (SetlistSong_rows reprise))"
    by (simp add: reprise_def sample_defs)
  show ?thesis
    using client_removes_every_entry_of_song
      [of client "\<lparr>rp_setlist_id = ''S1'', rp_song_id = ''A''\<rparr>" reprise 9 "''U1''"
          "Msg ''Song removed from setlist''"
          "reprise\<lparr>Setlist_rows := [S1\<lparr>sl_updated_at := 9\<rparr>, S2],
                SetlistSong_rows :=
                  [entry ''e2'' ''S1'' ''B'' 2 None, entry ''e4'' ''S1'' ''A'' 3 None]\<rparr>"]
      rem d
    by (simp add: client_def entry_def)
qed

end
